theory Spec2Isabelle
  imports Complex_Main "HOL-Library.Log_Nat"
begin

section \<open>Referral-commission and payout ledger of the course-sales backend\<close>

text \<open>
  The controllers of the backend are embedded as functions that take the database state
  and the request and return the HTTP reply together with the new state. Every early
  \<^verbatim>\<open>return res.status(..)\<close> of a controller is an \<open>Inl\<close> reply that carries the
  status code and the message of the source.

  Conventions of the embedding:
  \<^item> a JavaScript \<^verbatim>\<open>Number\<close> is the rational value of an IEEE double, and the
    arithmetic of the controllers and of the database rounds as doubles do (see below);
  \<^item> the Payment, Commission, Payout and PayoutRequest collections are lists in
    insertion order, and the \<^verbatim>\<open>_id\<close> of a document is its position (documents of
    these collections are never deleted by the controllers); users and courses can be
    deleted and are finite maps from \<^verbatim>\<open>_id\<close>;
  \<^item> dates, notes and payout references are written by the controllers and never read
    by them; they are left out of the records;
  \<^item> the Commission schema is the one with the \<^verbatim>\<open>type\<close> field, where
    \<^verbatim>\<open>referral\<close>, \<^verbatim>\<open>payment\<close> and \<^verbatim>\<open>originalAmount\<close> are optional; it has no
    \<^verbatim>\<open>payoutId\<close> path;
  \<^item> the Payment schema is the one that is not commented out; it has no
    \<^verbatim>\<open>transactionId\<close> path;
  \<^item> a schema is strict: a field that is not a path of the schema is dropped when a
    document is built or updated, so it is never stored.
\<close>

subsection \<open>JavaScript numbers\<close>

text \<open>
  \<open>double x\<close> is the IEEE binary64 number nearest to \<open>x\<close>, ties to the even
  significand: with \<open>2 ^ e \<le> \<bar>x\<bar> < 2 ^ (e + 1)\<close> the significand has 53 bits and
  the unit in the last place is \<open>2 ^ (e - 52)\<close>. Overflow and subnormal numbers are
  not modelled; no amount of money comes near them. A decimal literal of the source
  such as \<^verbatim>\<open>0.1\<close> is \<open>double (1 / 10)\<close>, and \<^verbatim>\<open>a + b\<close>, \<^verbatim>\<open>a - b\<close>, \<^verbatim>\<open>a * b\<close>,
  \<^verbatim>\<open>a / b\<close> on numbers are the rounded results.
\<close>

definition round_even :: "rat \<Rightarrow> int" where
  "round_even y =
     (let q = \<lfloor>y\<rfloor>; f = y - of_int q
      in if f < 1 / 2 then q else if 1 / 2 < f then q + 1 else if even q then q else q + 1)"

definition exponent :: "rat \<Rightarrow> int" where
  "exponent x =
     (case quotient_of \<bar>x\<bar> of
        (p, q) \<Rightarrow> (let d = bitlen p - bitlen q in if 2 powi d \<le> \<bar>x\<bar> then d else d - 1))"

definition double :: "rat \<Rightarrow> rat" where
  "double x =
     (if x = 0 then 0
      else (let u = 2 powi (exponent x - 52) in of_int (round_even (x / u)) * u))"

definition fadd :: "rat \<Rightarrow> rat \<Rightarrow> rat" where
  "fadd a b = double (a + b)"

definition fsub :: "rat \<Rightarrow> rat \<Rightarrow> rat" where
  "fsub a b = double (a - b)"

definition fmul :: "rat \<Rightarrow> rat \<Rightarrow> rat" where
  "fmul a b = double (a * b)"

definition fdiv :: "rat \<Rightarrow> rat \<Rightarrow> rat" where
  "fdiv a b = double (a / b)"

text \<open>\<^verbatim>\<open>xs.reduce((sum, x) => sum + x, 0)\<close>, also the \<^verbatim>\<open>$sum\<close> of an aggregation.\<close>

definition jsSum :: "rat list \<Rightarrow> rat" where
  "jsSum xs = foldl fadd 0 xs"

subsection \<open>Data model\<close>

type_synonym oid = nat

datatype role = User | Agent | Admin

datatype commission_status = Pending | Paid | Cancelled

datatype commission_type = Commission | Payout

datatype payment_status = PaymentPending | Completed | Failed | Refunded

datatype payout_status = PayoutPending | PayoutCompleted | PayoutFailed

text \<open>
  The statuses of a payout request; \<open>OtherStatus\<close> stands for a string of a request
  that is none of them.
\<close>

datatype request_status = RequestPending | Approved | Rejected | RequestCompleted | OtherStatus

text \<open>
  The payout methods of the schemas; \<open>Other_method\<close> stands for a string of a request
  that is none of them.
\<close>

datatype payment_method = Bank_transfer | Stripe_payout | Manual | Paypal | Other_method

record bankDetails =
  accountNumber :: string
  bankName :: string
  isVerified :: bool

record user =
  role :: role
  referredBy :: "oid option"
  isActiveAgent :: bool
  commissionRate :: rat
  bankDetails :: bankDetails
  coursesEnrolled :: "oid list"
  coursesPurchased :: "oid list"
  totalReferrals :: int
  totalCommission :: rat
  referrals :: "oid list"

record course =
  price :: rat
  isActive :: bool

record payment =
  p_user :: oid
  p_course :: oid
  p_amount :: rat
  p_status :: payment_status
  referralAgent :: "oid option"
  commissionAmount :: "rat option"
  commissionStatus :: commission_status

record commission =
  c_agent :: oid
  c_referral :: "oid option"
  c_payment :: "oid option"
  c_amount :: rat
  c_status :: commission_status
  c_commissionRate :: rat
  originalAmount :: "rat option"
  c_type :: commission_type

record payout =
  po_agent :: oid
  po_amount :: rat
  po_status :: payout_status
  po_paymentMethod :: payment_method
  commissionIds :: "oid list"
  totalCommissionsPaid :: rat

record payoutRequest =
  pr_agent :: oid
  pr_amount :: rat
  pr_status :: request_status
  pr_commissionIds :: "oid list"

record state =
  users :: "oid \<rightharpoonup> user"
  courses :: "oid \<rightharpoonup> course"
  payments :: "payment list"
  commissions :: "commission list"
  payouts :: "payout list"
  payoutRequests :: "payoutRequest list"
  outbox :: "(oid \<times> oid) list"

text \<open>
  An id that arrives in a request: absent (falsy), not a well-formed ObjectId
  (\<^verbatim>\<open>isValidObjectId\<close> is false), or an ObjectId.
\<close>

datatype idArg = Missing | Malformed | Id oid

text \<open>
  A failed reply is the HTTP status with the message of \<^verbatim>\<open>createErrorResponse\<close>;
  \<open>ErrMax\<close> is the message that ends with the available amount.
\<close>

datatype error = Err nat string | ErrMax nat string rat

datatype reply =
    Received
  | CommissionUpdated commission
  | BulkPayout nat rat payment_method
  | PayoutProcessed oid
  | BankTransferProcessed oid
  | BulkActionDone
  | PayoutRequestProcessed request_status
  | PayoutRequestCreated oid
  | PayoutRequested rat nat
  | RefundProcessed
  | PaymentConfirmed

subsection \<open>The storage layer\<close>

text \<open>
  \<^verbatim>\<open>Model.find(query)\<close> returns the matching documents, with their ids, in storage
  order; \<^verbatim>\<open>Model.findOne\<close> the first of them; \<^verbatim>\<open>Model.updateMany(query, update)\<close>
  applies the update to every matching document; \<^verbatim>\<open>Model.findById\<close> reads one
  document.
\<close>

definition find_docs :: "(oid \<Rightarrow> 'a \<Rightarrow> bool) \<Rightarrow> 'a list \<Rightarrow> (oid \<times> 'a) list" where
  "find_docs q xs = filter (\<lambda>(i, x). q i x) (enumerate 0 xs)"

definition findOne :: "(oid \<Rightarrow> 'a \<Rightarrow> bool) \<Rightarrow> 'a list \<Rightarrow> (oid \<times> 'a) option" where
  "findOne q xs = (case find_docs q xs of [] \<Rightarrow> None | d # _ \<Rightarrow> Some d)"

definition updateMany :: "(oid \<Rightarrow> 'a \<Rightarrow> bool) \<Rightarrow> ('a \<Rightarrow> 'a) \<Rightarrow> 'a list \<Rightarrow> 'a list" where
  "updateMany q f xs = map (\<lambda>(i, x). if q i x then f x else x) (enumerate 0 xs)"

definition findById :: "'a list \<Rightarrow> oid \<Rightarrow> 'a option" where
  "findById xs i = (if i < length xs then Some (xs ! i) else None)"

text \<open>\<^verbatim>\<open>docs.reduce((sum, c) => sum + c.amount, 0)\<close>\<close>

definition sumAmount :: "(oid \<times> commission) list \<Rightarrow> rat" where
  "sumAmount docs = jsSum (map (\<lambda>(i, c). c_amount c) docs)"

text \<open>
  \<^verbatim>\<open>!agent.bankDetails || !agent.bankDetails.accountNumber || !agent.bankDetails.bankName\<close>:
  the nested path is always an object, a missing string is the empty one.
\<close>

definition noBankDetails :: "user \<Rightarrow> bool" where
  "noBankDetails u \<longleftrightarrow> accountNumber (bankDetails u) = [] \<or> bankName (bankDetails u) = []"

subsection \<open>Admin controller: status update and payouts\<close>

text \<open>
  \<^verbatim>\<open>updateCommissionStatus\<close>: the route validator admits the three statuses (anything
  else is the validation error, \<open>None\<close> here); the update is
  \<^verbatim>\<open>Commission.findByIdAndUpdate(id, { status, .. })\<close>, with no condition on the
  current status.
\<close>

definition updateCommissionStatus ::
  "state \<Rightarrow> idArg \<Rightarrow> commission_status option \<Rightarrow> (error + reply) \<times> state" where
  "updateCommissionStatus s cid status =
     (case status of
        None \<Rightarrow> (Inl (Err 400 ''Validation failed''), s)
      | Some st \<Rightarrow>
         (case cid of
            Id i \<Rightarrow>
              (case findById (commissions s) i of
                 None \<Rightarrow> (Inl (Err 404 ''Commission not found''), s)
               | Some c \<Rightarrow>
                   (Inr (CommissionUpdated (c\<lparr>c_status := st\<rparr>)),
                    s\<lparr>commissions := (commissions s)[i := c\<lparr>c_status := st\<rparr>]\<rparr>))
          | _ \<Rightarrow> (Inl (Err 400 ''Invalid commission ID''), s)))"

text \<open>
  \<^verbatim>\<open>processBulkPayout\<close>: the route validator admits the methods \<^verbatim>\<open>bank_transfer\<close>,
  \<^verbatim>\<open>stripe_payout\<close> and \<^verbatim>\<open>manual\<close>. The pending commissions among the ids are read with
  \<^verbatim>\<open>find({ _id: { $in: commissionIds }, status: 'pending' })\<close>; the update is
  \<^verbatim>\<open>updateMany({ _id: { $in: commissionIds } }, { status: 'paid', .. })\<close>.
\<close>

definition processBulkPayout ::
  "state \<Rightarrow> oid list \<Rightarrow> payment_method option \<Rightarrow> (error + reply) \<times> state" where
  "processBulkPayout s ids payoutMethod =
     (case (if payoutMethod = Some Paypal \<or> payoutMethod = Some Other_method then None
            else payoutMethod) of
        None \<Rightarrow> (Inl (Err 400 ''Validation failed''), s)
      | Some m \<Rightarrow>
          (let found = find_docs (\<lambda>i c. i \<in> set ids \<and> c_status c = Pending) (commissions s)
           in if length found = 0 then (Inl (Err 400 ''No pending commissions found''), s)
              else
                (let totalAmount = sumAmount found
                 in (Inr (BulkPayout (length found) totalAmount m),
                     s\<lparr>commissions :=
                         updateMany (\<lambda>i c. i \<in> set ids) (\<lambda>c. c\<lparr>c_status := Paid\<rparr>)
                           (commissions s)\<rparr>))))"

text \<open>
  The loop of \<^verbatim>\<open>processManualPayout\<close> over the pending commissions:
  \<^verbatim>\<open>
  for (const commission of pendingCommissions) {
    if (remainingAmount >= commission.amount) {
      commissionsToPay.push(commission._id);
      remainingAmount -= commission.amount;
      totalCommissionsPaid += commission.amount;
    } else { break; }
  }
  \<close>
\<close>

fun selectCommissions ::
  "(oid \<times> commission) list \<Rightarrow> rat \<Rightarrow> oid list \<Rightarrow> rat \<Rightarrow> oid list \<times> rat" where
  "selectCommissions [] remainingAmount commissionsToPay paid = (commissionsToPay, paid)"
| "selectCommissions ((i, c) # rest) remainingAmount commissionsToPay paid =
     (if remainingAmount \<ge> c_amount c
      then selectCommissions rest (fsub remainingAmount (c_amount c)) (commissionsToPay @ [i])
             (fadd paid (c_amount c))
      else (commissionsToPay, paid))"

text \<open>
  \<^verbatim>\<open>processManualPayout\<close>. The handler does not read the result of the route
  validators, so a method that the Payout schema does not list reaches
  \<^verbatim>\<open>payout.save()\<close>, which throws after the commissions have been updated; the
  \<^verbatim>\<open>catch\<close> answers 500. The last \<^verbatim>\<open>updateMany\<close> of the handler sets
  \<^verbatim>\<open>payoutId\<close>, which is not a path of the Commission schema: it writes nothing.
\<close>

definition processManualPayout ::
  "state \<Rightarrow> idArg \<Rightarrow> rat \<Rightarrow> payment_method option \<Rightarrow> (error + reply) \<times> state" where
  "processManualPayout s agentId amount paymentMethod =
     (case (if agentId = Missing \<or> amount = 0 then None else paymentMethod) of
        None \<Rightarrow> (Inl (Err 400 ''Agent ID, amount, and payment method are required''), s)
      | Some m \<Rightarrow>
      (case agentId of
        Id a \<Rightarrow>
          (case users s a of
             None \<Rightarrow> (Inl (Err 404 ''Agent not found''), s)
           | Some agent \<Rightarrow>
              if role agent \<noteq> Agent then (Inl (Err 404 ''Agent not found''), s)
              else if noBankDetails agent
              then (Inl (Err 400 ''Agent has not provided bank details yet''), s)
              else if m = Bank_transfer \<and> \<not> isVerified (bankDetails agent)
              then (Inl (Err 400
                ''Agent bank details must be verified before processing bank transfer''), s)
              else
                (let pendingCommissions =
                       find_docs (\<lambda>i c. c_agent c = a \<and> c_status c = Pending) (commissions s)
                 in if length pendingCommissions = 0
                    then (Inl (Err 400 ''No pending commissions found for this agent''), s)
                    else if amount > sumAmount pendingCommissions
                    then (Inl (ErrMax 400 ''Amount exceeds pending commission. Maximum payout: ''
                                 (sumAmount pendingCommissions)), s)
                    else
                      (case selectCommissions pendingCommissions amount [] 0 of
                         (commissionsToPay, paid) \<Rightarrow>
                           (let s1 = s\<lparr>commissions :=
                                        updateMany (\<lambda>i c. i \<in> set commissionsToPay)
                                          (\<lambda>c. c\<lparr>c_status := Paid\<rparr>) (commissions s)\<rparr>;
                                pid = length (payouts s);
                                po = \<lparr>po_agent = a, po_amount = paid,
                                      po_status = PayoutCompleted,
                                      po_paymentMethod = m,
                                      commissionIds = commissionsToPay,
                                      totalCommissionsPaid = paid\<rparr>
                            in if m = Other_method then (Inl (Err 500 ''Server error''), s1)
                               else (Inr (PayoutProcessed pid),
                                     s1\<lparr>payouts := payouts s @ [po]\<rparr>)))))
      | _ \<Rightarrow> (Inl (Err 400 ''Invalid agent ID''), s)))"

text \<open>
  \<^verbatim>\<open>processBankTransfer\<close>: every pending commission of the agent is updated, and the
  record of the transfer is a document of the Commission collection
  (\<^verbatim>\<open>new Commission({ agent, amount, status: 'paid', .., type: 'payout' })\<close>, with the
  schema default \<^verbatim>\<open>0.1\<close> for the rate).
\<close>

definition processBankTransfer ::
  "state \<Rightarrow> idArg \<Rightarrow> rat \<Rightarrow> (error + reply) \<times> state" where
  "processBankTransfer s agentId amount =
     (if agentId = Missing \<or> amount = 0
      then (Inl (Err 400 ''Agent ID and amount are required''), s)
      else (case agentId of
        Id a \<Rightarrow>
          (case users s a of
             None \<Rightarrow> (Inl (Err 404 ''Agent not found''), s)
           | Some agent \<Rightarrow>
              if role agent \<noteq> Agent then (Inl (Err 404 ''Agent not found''), s)
              else if noBankDetails agent
              then (Inl (Err 400 ''Agent has not provided bank details yet''), s)
              else if \<not> isVerified (bankDetails agent)
              then (Inl (Err 400
                ''Agent bank details must be verified before processing bank transfer''), s)
              else
                (let pendingCommissions =
                       find_docs (\<lambda>i c. c_agent c = a \<and> c_status c = Pending) (commissions s)
                 in if length pendingCommissions = 0
                    then (Inl (Err 400 ''No pending commissions found for this agent''), s)
                    else if amount > sumAmount pendingCommissions
                    then (Inl (ErrMax 400 ''Amount exceeds pending commission. Maximum payout: ''
                                 (sumAmount pendingCommissions)), s)
                    else
                      (let ids = map fst pendingCommissions;
                           updated = updateMany (\<lambda>i c. i \<in> set ids)
                                       (\<lambda>c. c\<lparr>c_status := Paid\<rparr>) (commissions s);
                           po = \<lparr>c_agent = a, c_referral = None, c_payment = None,
                                 c_amount = amount, c_status = Paid,
                                 c_commissionRate = double (1 / 10),
                                 originalAmount = None, c_type = Payout\<rparr>
                       in (Inr (BankTransferProcessed (length updated)),
                           s\<lparr>commissions := updated @ [po]\<rparr>))))
      | _ \<Rightarrow> (Inl (Err 400 ''Invalid agent ID''), s)))"

text \<open>
  \<^verbatim>\<open>performBulkActions\<close>: the route validator admits four actions (anything else is
  the validation error, \<open>None\<close> here). \<^verbatim>\<open>data.status\<close> is read only by
  \<^verbatim>\<open>'update-commission-status'\<close>; without \<^verbatim>\<open>data\<close> the read throws and the
  handler answers 500.
\<close>

datatype bulkAction =
    Delete_users
  | Approve_agents
  | Update_commission_status "commission_status option"
  | Delete_courses

definition performBulkActions ::
  "state \<Rightarrow> bulkAction option \<Rightarrow> oid list \<Rightarrow> (error + reply) \<times> state" where
  "performBulkActions s action ids =
     (case action of
        None \<Rightarrow> (Inl (Err 400 ''Validation failed''), s)
      | Some Delete_users \<Rightarrow> (Inr BulkActionDone, s\<lparr>users := users s |` (- set ids)\<rparr>)
      | Some Approve_agents \<Rightarrow>
          (Inr BulkActionDone,
           s\<lparr>users := (\<lambda>i. case users s i of
                               None \<Rightarrow> None
                             | Some u \<Rightarrow>
                                 if i \<in> set ids \<and> role u = Agent
                                 then Some (u\<lparr>isActiveAgent := True\<rparr>) else Some u)\<rparr>)
      | Some (Update_commission_status None) \<Rightarrow> (Inl (Err 500 ''Server error''), s)
      | Some (Update_commission_status (Some st)) \<Rightarrow>
          (Inr BulkActionDone,
           s\<lparr>commissions :=
               updateMany (\<lambda>i c. i \<in> set ids) (\<lambda>c. c\<lparr>c_status := st\<rparr>) (commissions s)\<rparr>)
      | Some Delete_courses \<Rightarrow> (Inr BulkActionDone, s\<lparr>courses := courses s |` (- set ids)\<rparr>))"


text \<open>
  The authenticated principal \<^verbatim>\<open>req.user\<close> is the decoded token, which the
  authentication controller signs as \<^verbatim>\<open>{ userId, role }\<close>. It has no \<^verbatim>\<open>_id\<close>, so
  \<^verbatim>\<open>req.user._id\<close> is \<^verbatim>\<open>undefined\<close>.
\<close>

record principal =
  token_userId :: oid
  token_role :: role

definition principal_id :: "principal \<Rightarrow> oid option" where
  "principal_id u = None"

text \<open>
  \<^verbatim>\<open>createPayoutRequest\<close>: the agent is \<^verbatim>\<open>User.findById(req.user._id)\<close>, which is
  \<^verbatim>\<open>null\<close> for an id that is undefined or unknown; the read of
  \<^verbatim>\<open>agent.bankDetails\<close> throws then (500). The PayoutRequest schema has
  \<^verbatim>\<open>amount: { min: 0 }\<close>, so saving a negative amount throws (500). The given
  commission ids are checked to be the agent's own pending commissions; the amount is not
  compared with anything.
\<close>

definition createPayoutRequest ::
  "state \<Rightarrow> principal \<Rightarrow> rat \<Rightarrow> oid list \<Rightarrow> (error + reply) \<times> state" where
  "createPayoutRequest s user amount ids =
     (case principal_id user of
        None \<Rightarrow> (Inl (Err 500 ''Server error''), s)
      | Some agentId \<Rightarrow>
     (case users s agentId of
        None \<Rightarrow> (Inl (Err 500 ''Server error''), s)
      | Some agent \<Rightarrow>
          if noBankDetails agent
          then (Inl (Err 400 ''Please add your bank details before requesting a payout''), s)
          else if length ids > 0 \<and>
                  length (find_docs (\<lambda>i c. i \<in> set ids \<and> c_agent c = agentId \<and> c_status c = Pending)
                            (commissions s)) \<noteq> length ids
          then (Inl (Err 400 ''Invalid commission IDs or commissions already paid''), s)
          else if amount < 0 then (Inl (Err 500 ''Server error''), s)
          else (Inr (PayoutRequestCreated (length (payoutRequests s))),
                s\<lparr>payoutRequests := payoutRequests s @
                    [\<lparr>pr_agent = agentId, pr_amount = amount, pr_status = RequestPending,
                      pr_commissionIds = ids\<rparr>]\<rparr>)))"

subsection \<open>Referral controller: the agent's payout request\<close>

text \<open>
  \<^verbatim>\<open>.limit(n)\<close> of a query: \<open>0\<close> is no limit, a negative limit is its absolute
  value.
\<close>

definition limit :: "int \<Rightarrow> 'a list \<Rightarrow> 'a list" where
  "limit n xs = (if n = 0 then xs else take (nat \<bar>n\<bar>) xs)"

text \<open>
  The loop of \<^verbatim>\<open>requestPayout\<close>:
  \<^verbatim>\<open>
  for (const commission of commissionsToUpdate) {
    if (totalUpdated + commission.amount <= amount) {
      commission.status = 'paid'; ..
      await commission.save();
      totalUpdated += commission.amount;
    }
  }
  \<close>
\<close>

fun payCommissions ::
  "(oid \<times> commission) list \<Rightarrow> rat \<Rightarrow> rat \<Rightarrow> commission list \<Rightarrow> rat \<times> commission list" where
  "payCommissions [] amount totalUpdated cs = (totalUpdated, cs)"
| "payCommissions ((i, c) # rest) amount totalUpdated cs =
     (if fadd totalUpdated (c_amount c) \<le> amount
      then payCommissions rest amount (fadd totalUpdated (c_amount c))
             (cs[i := c\<lparr>c_status := Paid\<rparr>])
      else payCommissions rest amount totalUpdated cs)"

text \<open>
  \<^verbatim>\<open>requestPayout\<close>, for the \<^verbatim>\<open>userId\<close> of the principal: the route validator
  admits the methods \<^verbatim>\<open>bank_transfer\<close> and \<^verbatim>\<open>stripe_payout\<close> and any number as
  the amount. The commissions to update are
  \<^verbatim>\<open>Commission.find({ agent, status: 'pending' }).limit(Math.ceil(amount / 10))\<close>.
\<close>

definition requestPayout ::
  "state \<Rightarrow> oid \<Rightarrow> rat \<Rightarrow> payment_method option \<Rightarrow> (error + reply) \<times> state" where
  "requestPayout s userId amount payoutMethod =
     (if payoutMethod \<noteq> Some Bank_transfer \<and> payoutMethod \<noteq> Some Stripe_payout
      then (Inl (Err 400 ''Validation failed''), s)
      else case users s userId of
        None \<Rightarrow> (Inl (Err 403 ''Agent access required''), s)
      | Some u \<Rightarrow>
          if role u \<noteq> Agent then (Inl (Err 403 ''Agent access required''), s)
          else if \<not> isActiveAgent u then (Inl (Err 400 ''Agent account not approved''), s)
          else
            (let pending = find_docs (\<lambda>i c. c_agent c = userId \<and> c_status c = Pending)
                             (commissions s);
                 availableAmount = sumAmount pending
             in if amount > availableAmount
                then (Inl (ErrMax 400 ''Insufficient pending commission. Available: $''
                             availableAmount), s)
                else
                  (let commissionsToUpdate = limit \<lceil>fdiv amount 10\<rceil> pending
                   in case payCommissions commissionsToUpdate amount 0 (commissions s) of
                        (totalUpdated, cs) \<Rightarrow>
                          (Inr (PayoutRequested totalUpdated (length commissionsToUpdate)),
                           s\<lparr>commissions := cs\<rparr>))))"

subsection \<open>Payments controller\<close>

text \<open>
  The external collaborators of the payments controller: the percentage
  \<^verbatim>\<open>parseFloat(process.env.COMMISSION_PERCENTAGE || 10)\<close>, whether the receipt and
  the confirmation mail can be produced, \<^verbatim>\<open>stripe.paymentIntents.retrieve\<close> (which
  throws for an unknown id) and whether \<^verbatim>\<open>stripe.refunds.create\<close> returns or
  throws.
\<close>

record paymentIntent =
  pi_id :: string
  pi_amount :: rat
  succeeded :: bool
  metadata_userId :: idArg
  metadata_courseId :: idArg

record env =
  commissionPercentage :: rat
  mailOk :: bool
  retrieve :: "string \<Rightarrow> paymentIntent option"
  refundOk :: bool

text \<open>
  The event that \<^verbatim>\<open>stripe.webhooks.constructEvent\<close> yields, or its failure on a bad
  signature.
\<close>

datatype event =
    SignatureInvalid
  | Payment_intent_succeeded paymentIntent
  | Payment_intent_payment_failed paymentIntent
  | OtherEvent

text \<open>
  \<^verbatim>\<open>Payment.findOne({ transactionId: id })\<close>. The controller passes
  \<^verbatim>\<open>transactionId\<close> to \<^verbatim>\<open>new Payment(..)\<close>, but it is not a path of the Payment
  schema: no stored payment has the field, and the filter matches no document.
\<close>

definition findByTransactionId :: "payment list \<Rightarrow> string \<Rightarrow> (oid \<times> payment) option" where
  "findByTransactionId ps tx = findOne (\<lambda>i p. False) ps"

text \<open>
  The block ``Create commission automatically if there's a referral agent'', the same
  text in \<^verbatim>\<open>handleWebhook\<close> and in \<^verbatim>\<open>manualPaymentConfirm\<close>. It takes the payment
  object in memory with its id and returns it with the state.
\<close>

definition createCommission ::
  "state \<Rightarrow> oid \<Rightarrow> user \<Rightarrow> oid \<Rightarrow> payment \<Rightarrow> payment \<times> state" where
  "createCommission s userId u pid p =
     (case referredBy u of
        None \<Rightarrow> (p, s)
      | Some a \<Rightarrow>
          (case users s a of
             None \<Rightarrow> (p, s)
           | Some agent \<Rightarrow>
               if role agent = Agent
               then (let amount = fdiv (fmul (p_amount p) (commissionRate agent)) 100;
                         c = \<lparr>c_agent = a, c_referral = Some userId, c_payment = Some pid,
                              c_amount = amount, c_status = Pending,
                              c_commissionRate = fdiv (commissionRate agent) 100,
                              originalAmount = Some (p_amount p), c_type = Commission\<rparr>;
                         p' = p\<lparr>commissionStatus := Pending\<rparr>
                     in (p', s\<lparr>commissions := commissions s @ [c],
                               payments := (payments s)[pid := p']\<rparr>))
               else (p, s)))"

text \<open>
  The purchase record and the enrolment, each pushed only when the course is not there
  yet (\<^verbatim>\<open>coursesPurchased.some(..)\<close>, \<^verbatim>\<open>coursesEnrolled.includes(..)\<close>).
\<close>

definition enrol :: "user \<Rightarrow> oid \<Rightarrow> user" where
  "enrol u courseId =
     (let u1 = (if courseId \<in> set (coursesPurchased u) then u
                else u\<lparr>coursesPurchased := coursesPurchased u @ [courseId]\<rparr>)
      in if courseId \<in> set (coursesEnrolled u1) then u1
         else u1\<lparr>coursesEnrolled := coursesEnrolled u1 @ [courseId]\<rparr>)"

text \<open>
  The receipt and the confirmation mail, in a \<^verbatim>\<open>try\<close> whose \<^verbatim>\<open>catch\<close> only logs.
\<close>

definition sendCoursePurchaseEmail :: "env \<Rightarrow> state \<Rightarrow> oid \<Rightarrow> oid \<Rightarrow> state" where
  "sendCoursePurchaseEmail e s userId courseId =
     (if mailOk e then s\<lparr>outbox := outbox s @ [(userId, courseId)]\<rparr> else s)"

text \<open>\<^verbatim>\<open>$addToSet\<close>\<close>

definition addToSet :: "'a \<Rightarrow> 'a list \<Rightarrow> 'a list" where
  "addToSet x xs = (if x \<in> set xs then xs else xs @ [x])"

text \<open>
  The block ``Handle referral commission if applicable'' at the end of
  \<^verbatim>\<open>handleWebhook\<close>: it reads the referrer again, asks for \<^verbatim>\<open>isActiveAgent\<close> too,
  takes the rate as \<^verbatim>\<open>referrer.commissionRate || parseFloat(..)\<close>, saves a Commission
  (rate and type by schema default), and updates the payment and the referrer's counters.
\<close>

definition handleReferralCommission ::
  "env \<Rightarrow> state \<Rightarrow> oid \<Rightarrow> user \<Rightarrow> oid \<Rightarrow> payment \<Rightarrow> paymentIntent \<Rightarrow> state" where
  "handleReferralCommission e s userId u pid p intent =
     (case referredBy u of
        None \<Rightarrow> s
      | Some a \<Rightarrow>
          (case users s a of
             None \<Rightarrow> s
           | Some referrer \<Rightarrow>
               if role referrer = Agent \<and> isActiveAgent referrer
               then (let commissionPercentage =
                           (if commissionRate referrer \<noteq> 0 then commissionRate referrer
                            else commissionPercentage e);
                         amount = fmul (fdiv (pi_amount intent) 100)
                                    (fdiv commissionPercentage 100);
                         c = \<lparr>c_agent = a, c_referral = Some userId, c_payment = Some pid,
                              c_amount = amount, c_status = Pending,
                              c_commissionRate = double (1 / 10),
                              originalAmount = Some (fdiv (pi_amount intent) 100),
                              c_type = Commission\<rparr>;
                         p' = p\<lparr>commissionAmount := Some amount, referralAgent := Some a\<rparr>
                     in s\<lparr>commissions := commissions s @ [c],
                          payments := (payments s)[pid := p'],
                          users := (users s)(a \<mapsto> referrer
                            \<lparr>totalCommission := fadd (totalCommission referrer) amount,
                             totalReferrals := totalReferrals referrer + 1,
                             referrals := addToSet userId (referrals referrer)\<rparr>)\<rparr>)
               else s))"

text \<open>
  \<^verbatim>\<open>handleWebhook\<close>. A malformed id in the metadata makes \<^verbatim>\<open>findById\<close> throw inside
  the \<^verbatim>\<open>try\<close>, whose \<^verbatim>\<open>catch\<close> answers 400 with the message of the error. The user
  and the course are resolved before the lookup of the payment by
  \<^verbatim>\<open>transactionId\<close>, which is followed by the check of the enrolment. A failed
  payment is saved in a \<^verbatim>\<open>try\<close> whose \<^verbatim>\<open>catch\<close> only logs; the save throws when
  \<^verbatim>\<open>user\<close> or \<^verbatim>\<open>course\<close> is missing or malformed.
\<close>

definition handleWebhook :: "env \<Rightarrow> state \<Rightarrow> event \<Rightarrow> (error + reply) \<times> state" where
  "handleWebhook e s ev =
     (case ev of
        SignatureInvalid \<Rightarrow> (Inl (Err 400 ''Webhook Error''), s)
      | Payment_intent_succeeded intent \<Rightarrow>
          (if metadata_userId intent = Missing \<or> metadata_courseId intent = Missing
           then (Inl (Err 400 ''Missing metadata''), s)
           else case (metadata_userId intent, metadata_courseId intent) of
             (Id userId, Id courseId) \<Rightarrow>
               (case users s userId of
                  None \<Rightarrow> (Inl (Err 400 ''User not found''), s)
                | Some u \<Rightarrow>
                    (case courses s courseId of
                       None \<Rightarrow> (Inl (Err 400 ''Course not found''), s)
                     | Some course \<Rightarrow>
                         if findByTransactionId (payments s) (pi_id intent) \<noteq> None
                         then (Inr Received, s)
                         else if courseId \<in> set (coursesEnrolled u)
                         then (Inr Received, s)
                         else
                           (let pid = length (payments s);
                                p = \<lparr>p_user = userId, p_course = courseId,
                                     p_amount = fdiv (pi_amount intent) 100,
                                     p_status = Completed, referralAgent = referredBy u,
                                     commissionAmount = None, commissionStatus = Pending\<rparr>;
                                s1 = s\<lparr>payments := payments s @ [p]\<rparr>
                            in case createCommission s1 userId u pid p of
                                 (p2, s2) \<Rightarrow>
                                   (let s3 = s2\<lparr>users := (users s2)(userId \<mapsto> enrol u courseId)\<rparr>;
                                        s4 = sendCoursePurchaseEmail e s3 userId courseId
                                    in (Inr Received,
                                        handleReferralCommission e s4 userId u pid p2 intent)))))
           | _ \<Rightarrow> (Inl (Err 400 ''Cast to ObjectId failed''), s))
      | Payment_intent_payment_failed intent \<Rightarrow>
          (case (metadata_userId intent, metadata_courseId intent) of
             (Id userId, Id courseId) \<Rightarrow>
               (Inr Received,
                s\<lparr>payments := payments s @
                    [\<lparr>p_user = userId, p_course = courseId,
                      p_amount = fdiv (pi_amount intent) 100, p_status = Failed,
                      referralAgent = None,
                      commissionAmount = None, commissionStatus = Pending\<rparr>]\<rparr>)
           | _ \<Rightarrow> (Inr Received, s))
      | OtherEvent \<Rightarrow> (Inr Received, s))"

text \<open>
  \<^verbatim>\<open>manualPaymentConfirm\<close>, for the authenticated user. A throw of
  \<^verbatim>\<open>stripe.paymentIntents.retrieve\<close> or of \<^verbatim>\<open>Course.findById\<close> on a malformed id
  is answered 500 by the outer \<^verbatim>\<open>catch\<close>.
\<close>

definition manualPaymentConfirm ::
  "env \<Rightarrow> state \<Rightarrow> oid \<Rightarrow> string \<Rightarrow> idArg \<Rightarrow> (error + reply) \<times> state" where
  "manualPaymentConfirm e s userId paymentIntentId courseArg =
     (if paymentIntentId = [] \<or> courseArg = Missing
      then (Inl (Err 400 ''Payment intent ID and course ID are required''), s)
      else case retrieve e paymentIntentId of
        None \<Rightarrow> (Inl (Err 500 ''Server error''), s)
      | Some intent \<Rightarrow>
          if \<not> succeeded intent then (Inl (Err 400 ''Payment not succeeded''), s)
          else (case courseArg of
            Id courseId \<Rightarrow>
              (case (users s userId, courses s courseId) of
                 (Some u, Some course) \<Rightarrow>
                   if findByTransactionId (payments s) paymentIntentId \<noteq> None
                   then (Inl (Err 400 ''Payment already processed''), s)
                   else
                     (let pid = length (payments s);
                          p = \<lparr>p_user = userId, p_course = courseId,
                               p_amount = fdiv (pi_amount intent) 100,
                               p_status = Completed, referralAgent = referredBy u,
                               commissionAmount = None, commissionStatus = Pending\<rparr>;
                          s1 = s\<lparr>payments := payments s @ [p]\<rparr>
                      in case createCommission s1 userId u pid p of
                           (p2, s2) \<Rightarrow>
                             (let s3 = s2\<lparr>users := (users s2)(userId \<mapsto> enrol u courseId)\<rparr>
                              in (Inr PaymentConfirmed,
                                  sendCoursePurchaseEmail e s3 userId courseId)))
               | _ \<Rightarrow> (Inl (Err 404 ''User or course not found''), s))
          | _ \<Rightarrow> (Inl (Err 500 ''Server error''), s)))"

text \<open>
  \<^verbatim>\<open>processRefund\<close>. The route validator asks for a payment id and a reason that are
  not empty. The call of the provider comes before any write; when it throws, the
  \<^verbatim>\<open>catch\<close> answers 500. The commission is
  \<^verbatim>\<open>Commission.findOne({ payment: payment._id })\<close>, looked up only when the payment
  has a \<^verbatim>\<open>referralAgent\<close>; \<^verbatim>\<open>User.findByIdAndUpdate\<close> with
  \<^verbatim>\<open>$inc: { totalCommission: -commission.amount }\<close> changes nothing when the agent's
  document is gone.
\<close>

definition processRefund ::
  "env \<Rightarrow> state \<Rightarrow> idArg \<Rightarrow> string \<Rightarrow> (error + reply) \<times> state" where
  "processRefund e s paymentId reason =
     (if paymentId = Missing \<or> reason = [] then (Inl (Err 400 ''Validation failed''), s)
      else case paymentId of
        Id pid \<Rightarrow>
          (case findById (payments s) pid of
             None \<Rightarrow> (Inl (Err 404 ''Payment not found''), s)
           | Some p \<Rightarrow>
               if p_status p \<noteq> Completed then (Inl (Err 400 ''Payment is not completed''), s)
               else if \<not> refundOk e then (Inl (Err 500 ''Server error''), s)
               else
                 (let s1 = s\<lparr>payments := (payments s)[pid := p\<lparr>p_status := Refunded\<rparr>]\<rparr>
                  in case referralAgent p of
                       None \<Rightarrow> (Inr RefundProcessed, s1)
                     | Some a \<Rightarrow>
                         (case findOne (\<lambda>i c. c_payment c = Some pid) (commissions s1) of
                            None \<Rightarrow> (Inr RefundProcessed, s1)
                          | Some (i, c) \<Rightarrow>
                              if c_status c = Pending
                              then (Inr RefundProcessed,
                                    s1\<lparr>commissions :=
                                         (commissions s1)[i := c\<lparr>c_status := Cancelled\<rparr>],
                                       users :=
                                         (case users s1 a of
                                            None \<Rightarrow> users s1
                                          | Some agent \<Rightarrow> (users s1)(a \<mapsto> agent
                                              \<lparr>totalCommission :=
                                                 fadd (totalCommission agent) (- c_amount c)\<rparr>))\<rparr>)
                              else (Inr RefundProcessed, s1))))
      | _ \<Rightarrow> (Inl (Err 400 ''Invalid payment ID''), s))"

subsection \<open>A concrete scenario\<close>

text \<open>
  Agent A (id 1, rate 10, approved, verified bank details) has referred user B (id 2);
  course 7 costs 100. The provider reports the charge \<^verbatim>\<open>tx_1\<close> of 10000 pence.
\<close>

definition agentA :: user where
  "agentA = \<lparr>role = Agent, referredBy = None, isActiveAgent = True, commissionRate = 10,
     bankDetails = \<lparr>accountNumber = ''12345678'', bankName = ''Bank'', isVerified = True\<rparr>,
     coursesEnrolled = [], coursesPurchased = [], totalReferrals = 0, totalCommission = 0,
     referrals = []\<rparr>"

definition userB :: user where
  "userB = \<lparr>role = User, referredBy = Some 1, isActiveAgent = False, commissionRate = 10,
     bankDetails = \<lparr>accountNumber = [], bankName = [], isVerified = False\<rparr>,
     coursesEnrolled = [], coursesPurchased = [], totalReferrals = 0, totalCommission = 0,
     referrals = []\<rparr>"

definition tx_1 :: paymentIntent where
  "tx_1 = \<lparr>pi_id = ''tx_1'', pi_amount = 10000, succeeded = True,
     metadata_userId = Id 2, metadata_courseId = Id 7\<rparr>"

definition env0 :: env where
  "env0 = \<lparr>commissionPercentage = 10, mailOk = True,
     retrieve = (\<lambda>i. if i = ''tx_1'' then Some tx_1 else None), refundOk = True\<rparr>"

definition db0 :: state where
  "db0 = \<lparr>users = [1 \<mapsto> agentA, 2 \<mapsto> userB],
     courses = [7 \<mapsto> \<lparr>price = 100, isActive = True\<rparr>],
     payments = [], commissions = [], payouts = [], payoutRequests = [], outbox = []\<rparr>"

text \<open>
  A commission of agent 1 for payment \<open>p\<close>, and two ledgers of three of them: one with
  a pending, a paid and a cancelled commission (whose payment was refunded), one with
  three pending commissions of 10, 10 and 5.
\<close>

definition com :: "oid \<Rightarrow> rat \<Rightarrow> commission_status \<Rightarrow> commission" where
  "com p a st = \<lparr>c_agent = 1, c_referral = Some 2, c_payment = Some p, c_amount = a,
     c_status = st, c_commissionRate = double (1 / 10),
     originalAmount = Some (double (10 * a)),
     c_type = Commission\<rparr>"

definition pay :: "rat \<Rightarrow> payment" where
  "pay a = \<lparr>p_user = 2, p_course = 7, p_amount = a,
     p_status = Completed, referralAgent = Some 1, commissionAmount = None,
     commissionStatus = Pending\<rparr>"

definition db1 :: state where
  "db1 = db0\<lparr>users := [1 \<mapsto> agentA\<lparr>totalCommission := 25, totalReferrals := 3\<rparr>, 2 \<mapsto> userB],
     payments := [pay 100, pay 100, (pay 50)\<lparr>p_status := Refunded\<rparr>],
     commissions := [com 0 10 Pending, com 1 10 Paid, com 2 5 Cancelled]\<rparr>"

definition db3 :: state where
  "db3 = db0\<lparr>payments := [pay 100, pay 100, pay 50],
     commissions := [com 0 10 Pending, com 1 10 Pending, com 2 5 Pending]\<rparr>"

text \<open>
  The state once the charge \<^verbatim>\<open>tx_1\<close> has been applied (payment 0, one pending
  commission of 10, B enrolled), and the first state with the rate of agent A at 0.
\<close>

definition db2 :: state where
  "db2 = db0\<lparr>users := [1 \<mapsto> agentA,
                         2 \<mapsto> userB\<lparr>coursesEnrolled := [7], coursesPurchased := [7]\<rparr>],
     payments := [pay 100], commissions := [com 0 10 Pending],
     outbox := [(2, 7)]\<rparr>"

definition db_rate0 :: state where
  "db_rate0 = db0\<lparr>users := [1 \<mapsto> agentA\<lparr>commissionRate := 0\<rparr>, 2 \<mapsto> userB]\<rparr>"


text \<open>
  The amounts of a list of found commissions, and what is left of an amount after the
  amounts \<open>xs\<close> have been subtracted from it one by one (\<^verbatim>\<open>remainingAmount -= ..\<close>).
\<close>

definition amounts :: "(oid \<times> commission) list \<Rightarrow> rat list" where
  "amounts docs = map (\<lambda>(i, c). c_amount c) docs"

definition remainingAfter :: "rat \<Rightarrow> rat list \<Rightarrow> rat" where
  "remainingAfter amount xs = foldl fsub amount xs"



text \<open>
  A step from the commissions \<open>cs\<close> to \<open>cs'\<close> keeps the terminal statuses when no
  commission is lost and each commission of \<open>cs\<close> that is not pending has the same
  status in \<open>cs'\<close>.
\<close>

definition keepsTerminal :: "commission list \<Rightarrow> commission list \<Rightarrow> bool" where
  "keepsTerminal cs cs' \<longleftrightarrow>
     length cs \<le> length cs' \<and>
     (\<forall>i < length cs. c_status (cs ! i) \<noteq> Pending \<longrightarrow> c_status (cs' ! i) = c_status (cs ! i))"

section \<open>Properties\<close>

subsection \<open>Storage lemmas\<close>

lemma length_updateMany: "length (updateMany q f xs) = length xs"
  by (simp add: updateMany_def)

lemma nth_updateMany:
  "i < length xs \<Longrightarrow> updateMany q f xs ! i = (if q i (xs ! i) then f (xs ! i) else xs ! i)"
  by (simp add: updateMany_def nth_enumerate_eq)

lemma in_find_docs:
  "(i, x) \<in> set (find_docs q xs) \<longleftrightarrow> i < length xs \<and> xs ! i = x \<and> q i x"
  by (auto simp: find_docs_def in_set_enumerate_eq)

lemma fst_find_docs:
  "i \<in> fst ` set (find_docs q xs) \<longleftrightarrow> i < length xs \<and> q i (xs ! i)"
proof
  assume "i \<in> fst ` set (find_docs q xs)"
  then obtain x where "(i, x) \<in> set (find_docs q xs)" by auto
  then show "i < length xs \<and> q i (xs ! i)" by (simp add: in_find_docs)
next
  assume "i < length xs \<and> q i (xs ! i)"
  then have "(i, xs ! i) \<in> set (find_docs q xs)" by (simp add: in_find_docs)
  then show "i \<in> fst ` set (find_docs q xs)" by (rule image_eqI [rotated]) simp
qed


lemma findOne_None: "findOne q xs = None \<longleftrightarrow> (\<forall>i < length xs. \<not> q i (xs ! i))"
proof -
  have "findOne q xs = None \<longleftrightarrow> set (find_docs q xs) = {}"
    by (simp add: findOne_def split: list.splits)
  also have "\<dots> \<longleftrightarrow> (\<forall>i < length xs. \<not> q i (xs ! i))"
    using in_find_docs [of _ _ q xs] by (metis all_not_in_conv surj_pair)
  finally show ?thesis .
qed

lemma findOne_Some:
  "findOne q xs = Some (i, x) \<Longrightarrow> i < length xs \<and> xs ! i = x \<and> q i x"
proof -
  assume "findOne q xs = Some (i, x)"
  then have "(i, x) \<in> set (find_docs q xs)"
    by (auto simp: findOne_def split: list.splits)
  then show ?thesis by (simp add: in_find_docs)
qed

lemma findByTransactionId_None: "findByTransactionId ps tx = None"
  by (simp add: findByTransactionId_def findOne_None)


lemma amounts_Cons: "amounts ((i, c) # rest) = c_amount c # amounts rest"
  by (simp add: amounts_def)

lemma selectCommissions_greedy:
  "selectCommissions docs remaining acc paid = (ids, tot) \<Longrightarrow>
   \<exists>k \<le> length docs. ids = acc @ map fst (take k docs) \<and>
     tot = foldl fadd paid (amounts (take k docs)) \<and>
     (\<forall>j < k. c_amount (snd (docs ! j)) \<le> remainingAfter remaining (amounts (take j docs))) \<and>
     (k < length docs \<longrightarrow>
        remainingAfter remaining (amounts (take k docs)) < c_amount (snd (docs ! k)))"
proof (induction docs remaining acc paid rule: selectCommissions.induct)
  case (1 remaining acc paid)
  then show ?case by (simp add: amounts_def)
next
  case (2 i c rest remaining acc paid)
  show ?case
  proof (cases "c_amount c \<le> remaining")
    case True
    with 2 obtain k where k: "k \<le> length rest" "ids = (acc @ [i]) @ map fst (take k rest)"
      "tot = foldl fadd (fadd paid (c_amount c)) (amounts (take k rest))"
      "\<forall>j < k. c_amount (snd (rest ! j))
          \<le> remainingAfter (fsub remaining (c_amount c)) (amounts (take j rest))"
      "k < length rest \<longrightarrow>
         remainingAfter (fsub remaining (c_amount c)) (amounts (take k rest))
           < c_amount (snd (rest ! k))"
      by auto
    have fits: "c_amount (snd (((i, c) # rest) ! j))
        \<le> remainingAfter remaining (amounts (take j ((i, c) # rest)))" if "j < Suc k" for j
    proof (cases j)
      case 0
      with True show ?thesis by (simp add: remainingAfter_def amounts_def)
    next
      case (Suc j')
      with that k(4) show ?thesis
        by (simp add: remainingAfter_def amounts_def)
    qed
    show ?thesis
    proof (intro exI [of _ "Suc k"] conjI allI impI)
      show "Suc k \<le> length ((i, c) # rest)" using k(1) by simp
      show "ids = acc @ map fst (take (Suc k) ((i, c) # rest))" using k(2) by simp
      show "tot = foldl fadd paid (amounts (take (Suc k) ((i, c) # rest)))"
        using k(3) by (simp add: amounts_Cons)
      show "c_amount (snd (((i, c) # rest) ! j))
        \<le> remainingAfter remaining (amounts (take j ((i, c) # rest)))" if "j < Suc k" for j
        using that by (rule fits)
      show "remainingAfter remaining (amounts (take (Suc k) ((i, c) # rest)))
          < c_amount (snd (((i, c) # rest) ! Suc k))" if "Suc k < length ((i, c) # rest)"
        using that k(5) by (simp add: remainingAfter_def amounts_Cons)
    qed
  next
    case False
    with 2 show ?thesis
      by (intro exI [of _ 0]) (auto simp: amounts_def remainingAfter_def)
  qed
qed


text \<open>The definitions of the concrete scenario, for evaluation.\<close>

lemmas scenario = db0_def db1_def db2_def db3_def db_rate0_def env0_def tx_1_def agentA_def
  userB_def com_def pay_def

subsection \<open>Manual payout\<close>





subsection \<open>Bank transfer\<close>



subsection \<open>Refund\<close>

text \<open>
  Claim C9. A refund of a payment that is not \<open>Completed\<close> is answered 400 ``Payment is
  not completed'' (the InvalidState of the specification) and changes nothing; when the
  call of the payment provider fails, the refund of a completed payment is answered 500
  and changes nothing; and with a failing provider no request to \<open>processRefund\<close>
  succeeds or changes the state.
\<close>

theorem processRefund_aborts:
  "(findById (payments s) pid = Some p \<and> p_status p \<noteq> Completed \<and> reason \<noteq> [] \<longrightarrow>
      processRefund e s (Id pid) reason = (Inl (Err 400 ''Payment is not completed''), s)) \<and>
   (findById (payments s) pid = Some p \<and> p_status p = Completed \<and> reason \<noteq> [] \<and> \<not> refundOk e \<longrightarrow>
      processRefund e s (Id pid) reason = (Inl (Err 500 ''Server error''), s)) \<and>
   (\<not> refundOk e \<longrightarrow>
      isl (fst (processRefund e s paymentId reason)) \<and> snd (processRefund e s paymentId reason) = s)"
  by (auto simp: processRefund_def split: idArg.splits option.splits)

theorem processRefund_aborts_witness:
  "processRefund env0 db1 (Id 2) ''changed mind''
     = (Inl (Err 400 ''Payment is not completed''), db1) \<and>
   processRefund (env0\<lparr>refundOk := False\<rparr>) db1 (Id 0) ''changed mind''
     = (Inl (Err 500 ''Server error''), db1) \<and>
   isl (fst (processRefund (env0\<lparr>refundOk := False\<rparr>) db1 (Id 0) ''changed mind''))"
proof -
  have a: "findById (payments db1) 2 = Some ((pay 50)\<lparr>p_status := Refunded\<rparr>) \<and>
      p_status ((pay 50)\<lparr>p_status := Refunded\<rparr>) \<noteq> Completed \<and> ''changed mind'' \<noteq> []"
    by (simp add: findById_def scenario)
  have b: "findById (payments db1) 0 = Some (pay 100) \<and>
      p_status (pay 100) = Completed \<and> ''changed mind'' \<noteq> [] \<and>
      \<not> refundOk (env0\<lparr>refundOk := False\<rparr>)"
    by (simp add: findById_def scenario)
  from a processRefund_aborts [of db1 2 "(pay 50)\<lparr>p_status := Refunded\<rparr>"
      "''changed mind''" env0]
  have 1: "processRefund env0 db1 (Id 2) ''changed mind''
     = (Inl (Err 400 ''Payment is not completed''), db1)" by blast
  from b processRefund_aborts [of db1 0 "pay 100" "''changed mind''"
      "env0\<lparr>refundOk := False\<rparr>" "Id 0"]
  have 2: "processRefund (env0\<lparr>refundOk := False\<rparr>) db1 (Id 0) ''changed mind''
     = (Inl (Err 500 ''Server error''), db1)"
    and 3: "isl (fst (processRefund (env0\<lparr>refundOk := False\<rparr>) db1 (Id 0) ''changed mind''))"
    by blast+
  from 1 2 3 show ?thesis by blast
qed

text \<open>
  What a refund that goes through does to the commissions and the users: only the first
  commission that \<^verbatim>\<open>Commission.findOne({ payment })\<close> finds is looked at, and only when
  the payment has a \<open>referralAgent\<close>. When that commission is pending it becomes
  cancelled and its amount is taken from the \<open>totalCommission\<close> of the referral
  agent; otherwise the commissions and the users stay as they were.
\<close>

lemma processRefund_found_commission:
  assumes "findById (payments s) pid = Some p" and "p_status p = Completed"
    and "reason \<noteq> []" and "refundOk e"
    and "findOne (\<lambda>i c. c_payment c = Some pid) (commissions s) = Some (i, c)"
    and "referralAgent p = Some a"
    and "processRefund e s (Id pid) reason = (r, s')"
  shows "r = Inr RefundProcessed \<and>
     (c_status c = Pending \<longrightarrow>
        commissions s' = (commissions s)[i := c\<lparr>c_status := Cancelled\<rparr>] \<and>
        (\<forall>agent. users s a = Some agent \<longrightarrow>
           users s' a =
             Some (agent\<lparr>totalCommission := fadd (totalCommission agent) (- c_amount c)\<rparr>)) \<and>
        (\<forall>b. b \<noteq> a \<longrightarrow> users s' b = users s b)) \<and>
     (c_status c \<noteq> Pending \<longrightarrow> commissions s' = commissions s \<and> users s' = users s)"
  using assms
  by (auto simp: processRefund_def Let_def split: option.splits if_splits)

text \<open>
  Claim C7 does not hold of \<open>processRefund\<close> after \<open>handleWebhook\<close> has saved two
  commissions for one payment (the defect of claim C1): the refund finds the first one
  and cancels it, the second one stays pending. The \<open>totalCommission\<close> of the agent,
  raised once by 10, is back at 0.
\<close>

theorem processRefund_leaves_second_commission:
  "map (\<lambda>c. (c_payment c, c_status c))
     (commissions (snd (handleWebhook env0 db0 (Payment_intent_succeeded tx_1))))
     = [(Some 0, Pending), (Some 0, Pending)] \<and>
   fst (processRefund env0 (snd (handleWebhook env0 db0 (Payment_intent_succeeded tx_1)))
          (Id 0) ''changed mind'') = Inr RefundProcessed \<and>
   map (\<lambda>c. (c_payment c, c_status c))
     (commissions (snd (processRefund env0
        (snd (handleWebhook env0 db0 (Payment_intent_succeeded tx_1))) (Id 0) ''changed mind'')))
     = [(Some 0, Cancelled), (Some 0, Pending)] \<and>
   map_option totalCommission (users (snd (processRefund env0
        (snd (handleWebhook env0 db0 (Payment_intent_succeeded tx_1))) (Id 0) ''changed mind'')) 1)
     = Some 0"
  by code_simp

subsection \<open>Bulk payout\<close>

text \<open>
  Claim C3 does not hold of \<open>processBulkPayout\<close>: the status filter is in the
  \<open>find\<close> that counts and sums, not in the \<open>updateMany\<close>. With the ids of a
  pending, a paid and a cancelled commission, the reply counts one commission of total
  10, and all three commissions are paid afterwards.
\<close>

theorem processBulkPayout_pays_cancelled:
  "map c_status (commissions db1) = [Pending, Paid, Cancelled] \<and>
   fst (processBulkPayout db1 [0, 1, 2] (Some Manual)) = Inr (BulkPayout 1 10 Manual) \<and>
   map c_status (commissions (snd (processBulkPayout db1 [0, 1, 2] (Some Manual))))
     = [Paid, Paid, Paid]"
  by code_simp

subsection \<open>Payment events\<close>

text \<open>
  On the webhook path a repeated event is stopped by the check of the enrolment, since
  the lookup of the payment finds nothing: a succeeded event that changes the state
  leaves its user enrolled in its course, and processing it again changes nothing.
\<close>

lemma enrol_enrolled: "courseId \<in> set (coursesEnrolled (enrol u courseId))"
  by (simp add: enrol_def Let_def)

lemma createCommission_users:
  "createCommission s1 userId u pid p = (p2, s2) \<Longrightarrow> users s2 = users s1 \<and> courses s2 = courses s1"
  by (auto simp: createCommission_def Let_def split: option.splits if_splits)

lemma handleReferralCommission_enrolled:
  assumes "users s userId = Some u'" and "courseId \<in> set (coursesEnrolled u')"
  shows "\<exists>u''. users (handleReferralCommission e s userId u pid p intent) userId = Some u'' \<and>
      courseId \<in> set (coursesEnrolled u'')"
    and "courses (handleReferralCommission e s userId u pid p intent) = courses s"
  using assms
  by (auto simp: handleReferralCommission_def Let_def split: option.splits)

lemma handleWebhook_run:
  assumes "handleWebhook e s (Payment_intent_succeeded intent) = (r, s')"
  shows "s' = s \<or>
     (\<exists>userId courseId u'. metadata_userId intent = Id userId \<and>
        metadata_courseId intent = Id courseId \<and> users s' userId = Some u' \<and>
        courseId \<in> set (coursesEnrolled u') \<and> courses s' courseId \<noteq> None)"
proof (cases "s' = s")
  case True
  then show ?thesis by simp
next
  case False
  with assms obtain userId courseId u crs p p2 s2 where
    meta: "metadata_userId intent = Id userId" "metadata_courseId intent = Id courseId" and
    crs: "courses s courseId = Some crs" and
    cc: "createCommission (s\<lparr>payments := payments s @ [p]\<rparr>) userId u (length (payments s)) p
           = (p2, s2)" and
    res: "s' = handleReferralCommission e
         (sendCoursePurchaseEmail e (s2\<lparr>users := (users s2)(userId \<mapsto> enrol u courseId)\<rparr>)
            userId courseId)
         userId u (length (payments s)) p2 intent"
    by (auto simp: handleWebhook_def Let_def split: idArg.splits option.splits if_splits prod.splits)
  let ?s4 = "sendCoursePurchaseEmail e (s2\<lparr>users := (users s2)(userId \<mapsto> enrol u courseId)\<rparr>)
            userId courseId"
  have u4: "users ?s4 userId = Some (enrol u courseId)"
    by (simp add: sendCoursePurchaseEmail_def)
  have c4: "courses ?s4 = courses s"
    using createCommission_users [OF cc] by (simp add: sendCoursePurchaseEmail_def)
  have "\<exists>u''. users s' userId = Some u'' \<and> courseId \<in> set (coursesEnrolled u'')"
    unfolding res by (rule handleReferralCommission_enrolled(1) [OF u4 enrol_enrolled])
  moreover have "courses s' = courses s"
    unfolding res using handleReferralCommission_enrolled(2) [OF u4 enrol_enrolled] c4 by simp
  ultimately show ?thesis using meta crs by auto
qed

lemma handleWebhook_idem:
  "snd (handleWebhook e (snd (handleWebhook e s (Payment_intent_succeeded intent)))
          (Payment_intent_succeeded intent))
   = snd (handleWebhook e s (Payment_intent_succeeded intent))"
proof -
  let ?s' = "snd (handleWebhook e s (Payment_intent_succeeded intent))"
  from handleWebhook_run [OF surjective_pairing, of e s intent]
  show ?thesis
  proof
    assume "?s' = s"
    then show ?thesis by simp
  next
    assume "\<exists>userId courseId u'. metadata_userId intent = Id userId \<and>
        metadata_courseId intent = Id courseId \<and> users ?s' userId = Some u' \<and>
        courseId \<in> set (coursesEnrolled u') \<and> courses ?s' courseId \<noteq> None"
    then obtain userId courseId u' where
      "metadata_userId intent = Id userId" "metadata_courseId intent = Id courseId"
      "users ?s' userId = Some u'" "courseId \<in> set (coursesEnrolled u')"
      "courses ?s' courseId \<noteq> None"
      by blast
    then show ?thesis
      by (auto simp: handleWebhook_def [of e ?s'] findByTransactionId_None)
  qed
qed

text \<open>
  Claim C2 does not hold on the manual path: the lookup by \<^verbatim>\<open>transactionId\<close> finds no
  stored payment, and \<open>manualPaymentConfirm\<close> has no other check. The confirmation of
  \<^verbatim>\<open>tx_1\<close> by user B, repeated on the state that the first confirmation left, is
  answered with success again and saves a second Payment and a second Commission.
\<close>

theorem manualPaymentConfirm_twice:
  "fst (manualPaymentConfirm env0 db0 2 ''tx_1'' (Id 7)) = Inr PaymentConfirmed \<and>
   map p_amount (payments (snd (manualPaymentConfirm env0 db0 2 ''tx_1'' (Id 7)))) = [100] \<and>
   fst (manualPaymentConfirm env0 (snd (manualPaymentConfirm env0 db0 2 ''tx_1'' (Id 7)))
          2 ''tx_1'' (Id 7)) = Inr PaymentConfirmed \<and>
   map p_amount (payments (snd (manualPaymentConfirm env0
          (snd (manualPaymentConfirm env0 db0 2 ''tx_1'' (Id 7))) 2 ''tx_1'' (Id 7))))
     = [100, 100] \<and>
   map (\<lambda>c. (c_payment c, c_status c, c_amount c))
     (commissions (snd (manualPaymentConfirm env0
          (snd (manualPaymentConfirm env0 db0 2 ''tx_1'' (Id 7))) 2 ''tx_1'' (Id 7))))
     = [(Some 0, Pending, 10), (Some 1, Pending, 10)]"
  by code_simp

subsection \<open>Commissions created for a new payment\<close>

text \<open>
  What a new successful event adds to the commissions when the purchaser was referred
  by a user of role \<open>Agent\<close>: the webhook adds one commission, and a second one when
  the agent is approved; the manual confirmation adds one.
\<close>

lemma enrol_fields [simp]:
  "role (enrol u c) = role u" "isActiveAgent (enrol u c) = isActiveAgent u"
  "commissionRate (enrol u c) = commissionRate u" "referredBy (enrol u c) = referredBy u"
  by (simp_all add: enrol_def Let_def)

lemma handleWebhook_new_event_commissions:
  assumes "metadata_userId intent = Id userId" and "metadata_courseId intent = Id courseId"
    and "users s userId = Some u" and "courses s courseId = Some crs"
    and "courseId \<notin> set (coursesEnrolled u)"
    and "referredBy u = Some a" and "users s a = Some ag" and "role ag = Agent"
  shows "map (\<lambda>c. (c_payment c, c_status c, c_amount c))
           (commissions (snd (handleWebhook e s (Payment_intent_succeeded intent))))
       = map (\<lambda>c. (c_payment c, c_status c, c_amount c)) (commissions s) @
         (Some (length (payments s)), Pending,
          fdiv (fmul (fdiv (pi_amount intent) 100) (commissionRate ag)) 100) #
         (if isActiveAgent ag
          then [(Some (length (payments s)), Pending,
                 fmul (fdiv (pi_amount intent) 100)
                   (fdiv (if commissionRate ag \<noteq> 0 then commissionRate ag
                          else commissionPercentage e) 100))]
          else [])"
  using assms
  by (auto simp: handleWebhook_def createCommission_def handleReferralCommission_def
      sendCoursePurchaseEmail_def findByTransactionId_None Let_def)

lemma manualPaymentConfirm_new_event_commissions:
  assumes "tx \<noteq> []" and "retrieve e tx = Some intent" and "succeeded intent"
    and "users s userId = Some u" and "courses s courseId = Some crs"
    and "referredBy u = Some a" and "users s a = Some ag" and "role ag = Agent"
  shows "map (\<lambda>c. (c_payment c, c_status c, c_amount c))
           (commissions (snd (manualPaymentConfirm e s userId tx (Id courseId))))
       = map (\<lambda>c. (c_payment c, c_status c, c_amount c)) (commissions s) @
         [(Some (length (payments s)), Pending,
           fdiv (fmul (fdiv (pi_amount intent) 100) (commissionRate ag)) 100)]"
  using assms
  by (auto simp: manualPaymentConfirm_def createCommission_def
      sendCoursePurchaseEmail_def findByTransactionId_None Let_def)

text \<open>
  Claim C1 does not hold of \<open>handleWebhook\<close>: for the new event \<^verbatim>\<open>tx_1\<close> of user B,
  referred by the approved agent A, two pending commissions of 10 are saved for the one
  payment.
\<close>

theorem handleWebhook_two_commissions:
  "payments db0 = [] \<and> commissions db0 = [] \<and>
   fst (handleWebhook env0 db0 (Payment_intent_succeeded tx_1)) = Inr Received \<and>
   map (\<lambda>c. (c_payment c, c_agent c, c_status c, c_amount c))
     (commissions (snd (handleWebhook env0 db0 (Payment_intent_succeeded tx_1))))
     = [(Some 0, 1, Pending, 10), (Some 0, 1, Pending, 10)]"
  by code_simp

text \<open>
  Claim C8 does not hold of \<open>handleWebhook\<close> when the rate of the approved agent is 0:
  the payment is 100, the first commission is 0 and the second one is 10, computed from
  the default percentage.
\<close>

theorem handleWebhook_zero_rate:
  "map_option commissionRate (users db_rate0 1) = Some 0 \<and>
   map p_amount (payments (snd (handleWebhook env0 db_rate0 (Payment_intent_succeeded tx_1))))
     = [100] \<and>
   map c_amount (commissions (snd (handleWebhook env0 db_rate0 (Payment_intent_succeeded tx_1))))
     = [0, 10]"
  by code_simp

subsection \<open>Terminal statuses\<close>

lemma keepsTerminal_refl: "keepsTerminal cs cs"
  by (simp add: keepsTerminal_def)

lemma keepsTerminal_append: "keepsTerminal cs cs' \<Longrightarrow> keepsTerminal cs (cs' @ xs)"
  by (auto simp: keepsTerminal_def nth_append)

lemma keepsTerminal_updateMany:
  "(\<And>i. i < length cs \<Longrightarrow> q i (cs ! i) \<Longrightarrow> c_status (cs ! i) = Pending) \<Longrightarrow>
   keepsTerminal cs (updateMany q f cs)"
  by (auto simp: keepsTerminal_def length_updateMany nth_updateMany)

lemma keepsTerminal_list_update:
  "i < length cs \<longrightarrow> c_status (cs ! i) = Pending \<Longrightarrow> keepsTerminal cs (cs[i := c])"
  unfolding keepsTerminal_def
proof (intro conjI allI impI)
  fix j
  assume h: "i < length cs \<longrightarrow> c_status (cs ! i) = Pending"
    and j: "j < length cs" "c_status (cs ! j) \<noteq> Pending"
  then have "j \<noteq> i" by auto
  then show "c_status (cs[i := c] ! j) = c_status (cs ! j)" by simp
qed simp

lemma processRefund_keepsTerminal:
  "keepsTerminal (commissions s) (commissions (snd (processRefund e s paymentId reason)))"
  by (auto simp: processRefund_def Let_def keepsTerminal_refl
      split: idArg.splits option.splits
      dest!: findOne_Some intro!: keepsTerminal_list_update)

lemma selectCommissions_ids:
  assumes "selectCommissions docs remaining [] 0 = (ids, tot)"
  shows "set ids \<subseteq> fst ` set docs"
proof -
  from selectCommissions_greedy [OF assms] obtain k where "ids = map fst (take k docs)"
    by auto
  then show ?thesis using set_take_subset [of k docs] by auto
qed

lemma processManualPayout_commissions:
  assumes "processManualPayout s agentId amount m = (r, s')"
  shows "commissions s' = commissions s \<or>
     (\<exists>a. agentId = Id a \<and>
        commissions s' = updateMany
          (\<lambda>i c. i \<in> set (fst (selectCommissions
             (find_docs (\<lambda>i c. c_agent c = a \<and> c_status c = Pending) (commissions s))
             amount [] 0)))
          (\<lambda>c. c\<lparr>c_status := Paid\<rparr>) (commissions s))"
  using assms
  by (auto simp: processManualPayout_def Let_def
      split: option.splits idArg.splits if_splits prod.splits)

lemma processManualPayout_keepsTerminal:
  "keepsTerminal (commissions s) (commissions (snd (processManualPayout s agentId amount m)))"
proof -
  from processManualPayout_commissions [OF surjective_pairing, of s agentId amount m]
  show ?thesis
  proof
    assume "commissions (snd (processManualPayout s agentId amount m)) = commissions s"
    then show ?thesis by (simp add: keepsTerminal_refl)
  next
    assume "\<exists>a. agentId = Id a \<and>
        commissions (snd (processManualPayout s agentId amount m)) = updateMany
          (\<lambda>i c. i \<in> set (fst (selectCommissions
             (find_docs (\<lambda>i c. c_agent c = a \<and> c_status c = Pending) (commissions s))
             amount [] 0)))
          (\<lambda>c. c\<lparr>c_status := Paid\<rparr>) (commissions s)"
    then obtain a where
      cs: "commissions (snd (processManualPayout s agentId amount m)) = updateMany
          (\<lambda>i c. i \<in> set (fst (selectCommissions
             (find_docs (\<lambda>i c. c_agent c = a \<and> c_status c = Pending) (commissions s))
             amount [] 0)))
          (\<lambda>c. c\<lparr>c_status := Paid\<rparr>) (commissions s)"
      by blast
    have "\<And>i. i < length (commissions s) \<Longrightarrow>
        i \<in> set (fst (selectCommissions
             (find_docs (\<lambda>i c. c_agent c = a \<and> c_status c = Pending) (commissions s))
             amount [] 0)) \<Longrightarrow>
        c_status (commissions s ! i) = Pending"
    proof -
      fix i
      assume "i \<in> set (fst (selectCommissions
             (find_docs (\<lambda>i c. c_agent c = a \<and> c_status c = Pending) (commissions s))
             amount [] 0))"
      with selectCommissions_ids [OF surjective_pairing]
      have "i \<in> fst ` set (find_docs (\<lambda>i c. c_agent c = a \<and> c_status c = Pending)
          (commissions s))"
        by blast
      then obtain c where "(i, c) \<in> set (find_docs
          (\<lambda>i c. c_agent c = a \<and> c_status c = Pending) (commissions s))"
        by auto
      then show "c_status (commissions s ! i) = Pending" by (simp add: in_find_docs)
    qed
    then show ?thesis unfolding cs by (intro keepsTerminal_updateMany) simp_all
  qed
qed

lemma processBankTransfer_keepsTerminal:
  "keepsTerminal (commissions s) (commissions (snd (processBankTransfer s agentId amount)))"
  by (auto simp: processBankTransfer_def Let_def keepsTerminal_refl fst_find_docs
      split: idArg.splits option.splits
      intro!: keepsTerminal_append keepsTerminal_updateMany)

lemma set_limit: "set (limit n xs) \<subseteq> set xs"
  by (auto simp: limit_def dest: in_set_takeD)


lemma payCommissions_steps:
  "snd (payCommissions docs amount t cs) = cs' \<Longrightarrow>
   length cs' = length cs \<and>
   (\<forall>j < length cs. cs' ! j = cs ! j \<or> (\<exists>c. (j, c) \<in> set docs \<and> cs' ! j = c\<lparr>c_status := Paid\<rparr>))"
proof (induction docs amount t cs arbitrary: cs' rule: payCommissions.induct)
  case (1 amount totalUpdated cs)
  then show ?case by simp
next
  case (2 i c rest amount totalUpdated cs)
  show ?case
  proof (cases "fadd totalUpdated (c_amount c) \<le> amount")
    case True
    with 2 have ih: "length cs' = length (cs[i := c\<lparr>c_status := Paid\<rparr>])"
      "\<forall>j < length (cs[i := c\<lparr>c_status := Paid\<rparr>]).
          cs' ! j = cs[i := c\<lparr>c_status := Paid\<rparr>] ! j \<or>
          (\<exists>c'. (j, c') \<in> set rest \<and> cs' ! j = c'\<lparr>c_status := Paid\<rparr>)"
      by auto
    have "cs' ! j = cs ! j \<or> (\<exists>c'. (j, c') \<in> set ((i, c) # rest) \<and> cs' ! j = c'\<lparr>c_status := Paid\<rparr>)"
      if "j < length cs" for j
    proof -
      from ih(2) that have "cs' ! j = cs[i := c\<lparr>c_status := Paid\<rparr>] ! j \<or>
          (\<exists>c'. (j, c') \<in> set rest \<and> cs' ! j = c'\<lparr>c_status := Paid\<rparr>)"
        by simp
      then show ?thesis
      proof
        assume eq: "cs' ! j = cs[i := c\<lparr>c_status := Paid\<rparr>] ! j"
        show ?thesis
        proof (cases "j = i")
          case True
          with eq that have "(j, c) \<in> set ((i, c) # rest) \<and> cs' ! j = c\<lparr>c_status := Paid\<rparr>"
            by simp
          then show ?thesis by blast
        next
          case False
          with eq show ?thesis by simp
        qed
      next
        assume "\<exists>c'. (j, c') \<in> set rest \<and> cs' ! j = c'\<lparr>c_status := Paid\<rparr>"
        then show ?thesis by auto
      qed
    qed
    with ih(1) show ?thesis by simp
  next
    case False
    with 2 show ?thesis by auto
  qed
qed

lemma requestPayout_commissions:
  assumes "requestPayout s userId amount m = (r, s')"
  shows "s' = s \<or> commissions s' = snd (payCommissions
     (limit \<lceil>fdiv amount 10\<rceil>
        (find_docs (\<lambda>i c. c_agent c = userId \<and> c_status c = Pending) (commissions s)))
     amount 0 (commissions s))"
  using assms
  by (auto simp: requestPayout_def Let_def split: option.splits if_splits prod.splits)

lemma requestPayout_length:
  assumes "requestPayout s userId amount m = (r, s')"
  shows "length (commissions s') = length (commissions s)"
  using requestPayout_commissions [OF assms] payCommissions_steps by fastforce

lemma requestPayout_steps:
  assumes "requestPayout s userId amount m = (r, s')" and "i < length (commissions s)"
  shows "commissions s' ! i = commissions s ! i \<or>
      c_agent (commissions s ! i) = userId \<and> c_status (commissions s ! i) = Pending \<and>
      commissions s' ! i = (commissions s ! i)\<lparr>c_status := Paid\<rparr>"
proof (cases "s' = s")
  case True
  then show ?thesis by simp
next
  case False
  define docs where "docs = limit \<lceil>fdiv amount 10\<rceil>
     (find_docs (\<lambda>i c. c_agent c = userId \<and> c_status c = Pending) (commissions s))"
  from False requestPayout_commissions [OF assms(1)]
  have "commissions s' = snd (payCommissions docs amount 0 (commissions s))"
    by (simp add: docs_def)
  from payCommissions_steps [OF this [symmetric]] assms(2)
  have "commissions s' ! i = commissions s ! i \<or>
      (\<exists>c. (i, c) \<in> set docs \<and> commissions s' ! i = c\<lparr>c_status := Paid\<rparr>)"
    by auto
  moreover have "commissions s ! i = c \<and> c_agent c = userId \<and> c_status c = Pending"
    if "(i, c) \<in> set docs" for c
  proof -
    from that set_limit have "(i, c) \<in> set (find_docs
        (\<lambda>i c. c_agent c = userId \<and> c_status c = Pending) (commissions s))"
      unfolding docs_def by fast
    then show ?thesis by (simp add: in_find_docs)
  qed
  ultimately show ?thesis by auto
qed

lemma requestPayout_keepsTerminal:
  "keepsTerminal (commissions s) (commissions (snd (requestPayout s userId amount m)))"
  unfolding keepsTerminal_def
proof (intro conjI allI impI)
  show "length (commissions s) \<le> length (commissions (snd (requestPayout s userId amount m)))"
    using requestPayout_length [OF surjective_pairing, of s userId amount m] by simp
next
  fix i
  assume "i < length (commissions s)" "c_status (commissions s ! i) \<noteq> Pending"
  with requestPayout_steps [OF surjective_pairing, of i s userId amount m]
  show "c_status (commissions (snd (requestPayout s userId amount m)) ! i)
      = c_status (commissions s ! i)"
    by auto
qed

lemma createPayoutRequest_commissions:
  "commissions (snd (createPayoutRequest s usr amount ids)) = commissions s"
  by (auto simp: createPayoutRequest_def split: option.splits)

lemma keepsTerminalD:
  "keepsTerminal cs cs' \<Longrightarrow> i < length cs \<Longrightarrow> c_status (cs ! i) \<noteq> Pending \<Longrightarrow>
   c_status (cs' ! i) = c_status (cs ! i)"
  by (simp add: keepsTerminal_def)

text \<open>
  Claim C5, amended. A commission that is paid or cancelled keeps its status under a
  refund, a manual payout, a bank transfer and both payout requests of an agent
  (\<open>requestPayout\<close>, \<open>createPayoutRequest\<close>). The two admin operations that set a
  status, \<open>updateCommissionStatus\<close> and the bulk action
  \<^verbatim>\<open>update-commission-status\<close>, give every commission they address the requested
  status, whatever its status was.
\<close>

theorem terminal_statuses_kept:
  "keepsTerminal (commissions s) (commissions (snd (processRefund e s paymentId reason))) \<and>
   keepsTerminal (commissions s) (commissions (snd (processManualPayout s agentId amount m))) \<and>
   keepsTerminal (commissions s) (commissions (snd (processBankTransfer s agentId amount))) \<and>
   keepsTerminal (commissions s) (commissions (snd (requestPayout s userId amount m))) \<and>
   keepsTerminal (commissions s) (commissions (snd (createPayoutRequest s usr amount ids))) \<and>
   (\<forall>i < length (commissions s).
      c_status (commissions (snd (updateCommissionStatus s (Id i) (Some st))) ! i) = st) \<and>
   (\<forall>i < length (commissions s). i \<in> set bulkIds \<longrightarrow>
      c_status (commissions
        (snd (performBulkActions s (Some (Update_commission_status (Some st))) bulkIds)) ! i) = st)"
proof (intro conjI allI impI)
  show "keepsTerminal (commissions s) (commissions (snd (processRefund e s paymentId reason)))"
    by (rule processRefund_keepsTerminal)
  show "keepsTerminal (commissions s) (commissions (snd (processManualPayout s agentId amount m)))"
    by (rule processManualPayout_keepsTerminal)
  show "keepsTerminal (commissions s) (commissions (snd (processBankTransfer s agentId amount)))"
    by (rule processBankTransfer_keepsTerminal)
  show "keepsTerminal (commissions s) (commissions (snd (requestPayout s userId amount m)))"
    by (rule requestPayout_keepsTerminal)
  show "keepsTerminal (commissions s)
      (commissions (snd (createPayoutRequest s usr amount ids)))"
    by (simp add: createPayoutRequest_commissions keepsTerminal_refl)
next
  fix i assume "i < length (commissions s)"
  then show "c_status (commissions (snd (updateCommissionStatus s (Id i) (Some st))) ! i) = st"
    by (simp add: updateCommissionStatus_def findById_def)
next
  fix i assume "i < length (commissions s)" "i \<in> set bulkIds"
  then show "c_status (commissions
        (snd (performBulkActions s (Some (Update_commission_status (Some st))) bulkIds)) ! i) = st"
    by (simp add: performBulkActions_def nth_updateMany)
qed

theorem terminal_statuses_kept_witness:
  "c_status (commissions db1 ! 1) = Paid \<and> c_status (commissions db1 ! 2) = Cancelled \<and>
   c_status (commissions (snd (processRefund env0 db1 (Id 0) ''changed mind'')) ! 1) = Paid \<and>
   c_status (commissions (snd (processManualPayout db1 (Id 1) 10 (Some Bank_transfer))) ! 2)
     = Cancelled \<and>
   c_status (commissions (snd (processBankTransfer db1 (Id 1) 10)) ! 2) = Cancelled \<and>
   c_status (commissions (snd (requestPayout db1 1 10 (Some Bank_transfer))) ! 2) = Cancelled \<and>
   c_status (commissions
     (snd (createPayoutRequest db1 \<lparr>token_userId = 1, token_role = Agent\<rparr> 10 [0])) ! 1) = Paid \<and>
   c_status (commissions (snd (updateCommissionStatus db1 (Id 2) (Some Paid))) ! 2) = Paid \<and>
   c_status (commissions
     (snd (performBulkActions db1 (Some (Update_commission_status (Some Pending))) [1, 2])) ! 1)
     = Pending"
proof -
  note T = terminal_statuses_kept [of db1 env0 "Id 0" "''changed mind''" "Id 1" 10
      "Some Bank_transfer" 1 "\<lparr>token_userId = 1, token_role = Agent\<rparr>" "[0]" Paid "[1, 2]"]
  note U = terminal_statuses_kept [of db1 env0 "Id 0" "''changed mind''" "Id 1" 10
      "Some Bank_transfer" 1 "\<lparr>token_userId = 1, token_role = Agent\<rparr>" "[0]" Pending "[1, 2]"]
  have c1: "1 < length (commissions db1)" "c_status (commissions db1 ! 1) \<noteq> Pending"
    and c2: "2 < length (commissions db1)" "c_status (commissions db1 ! 2) \<noteq> Pending"
    and st: "c_status (commissions db1 ! 1) = Paid" "c_status (commissions db1 ! 2) = Cancelled"
    and mem: "1 \<in> set [1, 2::nat]"
    by (simp_all add: scenario)
  from T have "keepsTerminal (commissions db1)
      (commissions (snd (processRefund env0 db1 (Id 0) ''changed mind'')))" by blast
  from keepsTerminalD [OF this c1] st
  have r1: "c_status (commissions (snd (processRefund env0 db1 (Id 0) ''changed mind'')) ! 1) = Paid"
    by simp
  from T have "keepsTerminal (commissions db1)
      (commissions (snd (processManualPayout db1 (Id 1) 10 (Some Bank_transfer))))" by blast
  from keepsTerminalD [OF this c2] st
  have r2: "c_status (commissions (snd (processManualPayout db1 (Id 1) 10 (Some Bank_transfer))) ! 2)
     = Cancelled" by simp
  from T have "keepsTerminal (commissions db1)
      (commissions (snd (processBankTransfer db1 (Id 1) 10)))" by blast
  from keepsTerminalD [OF this c2] st
  have r3: "c_status (commissions (snd (processBankTransfer db1 (Id 1) 10)) ! 2) = Cancelled"
    by simp
  from T have "keepsTerminal (commissions db1)
      (commissions (snd (requestPayout db1 1 10 (Some Bank_transfer))))" by blast
  from keepsTerminalD [OF this c2] st
  have r4: "c_status (commissions (snd (requestPayout db1 1 10 (Some Bank_transfer))) ! 2)
     = Cancelled" by simp
  from T have "keepsTerminal (commissions db1) (commissions
     (snd (createPayoutRequest db1 \<lparr>token_userId = 1, token_role = Agent\<rparr> 10 [0])))" by blast
  from keepsTerminalD [OF this c1] st
  have r5: "c_status (commissions
     (snd (createPayoutRequest db1 \<lparr>token_userId = 1, token_role = Agent\<rparr> 10 [0])) ! 1) = Paid"
    by simp
  from T c2(1)
  have r6: "c_status (commissions (snd (updateCommissionStatus db1 (Id 2) (Some Paid))) ! 2) = Paid"
    by blast
  from U c1(1) mem
  have r7: "c_status (commissions
     (snd (performBulkActions db1 (Some (Update_commission_status (Some Pending))) [1, 2])) ! 1)
     = Pending"
    by blast
  from st r1 r2 r3 r4 r5 r6 r7 show ?thesis by blast
qed

text \<open>
  Claim C5 as stated fails for the single status update: the paid commission 1 is
  pending again after \<open>updateCommissionStatus\<close> with status \<open>Pending\<close>.
\<close>

theorem updateCommissionStatus_reopens_counterexample:
  "c_status (commissions db1 ! 1) = Paid \<and>
   fst (updateCommissionStatus db1 (Id 1) (Some Pending))
     = Inr (CommissionUpdated ((com 1 10 Paid)\<lparr>c_status := Pending\<rparr>)) \<and>
   c_status (commissions (snd (updateCommissionStatus db1 (Id 1) (Some Pending))) ! 1) = Pending"
  by (simp add: updateCommissionStatus_def findById_def scenario)

subsection \<open>Payout requests\<close>














end
